theory Spec2Isabelle
  imports Complex_Main
begin

section \<open>Utilities.js of apps-script-oauth2: a shallow embedding\<close>

text \<open>
  The module is a handful of helpers written in JavaScript for the Apps Script host. The
  embedding keeps each function of the source as one HOL definition of the same name. The
  trailing underscore of the source, which marks a private function, cannot end a HOL
  name and is dropped; \<open>extend_\<close> becomes \<open>extend'\<close>, since records already have an
  \<open>extend\<close>. The embedding models the pieces of the language and of the host that the
  functions call:
  \<^item> a JavaScript string is a \<open>string\<close>: the list of the bytes of its UTF-8 encoding (the
    strings of the source are well-formed Unicode; a lone surrogate has no such encoding);
  \<^item> a thrown exception is the \<open>Inl\<close> branch of a sum type;
  \<^item> an object is the list of its own enumerable properties in enumeration order
    (the order of \<open>Object.keys\<close>); accessors, prototypes and proxies are not modelled;
  \<^item> where a claim depends on object identity, objects live in a store and are passed by
    address.
\<close>

subsection \<open>Exceptions\<close>

datatype error =
    Error string          \<comment> \<open>\<open>new Error(message)\<close>, thrown by \<open>validate_\<close>\<close>
  | SyntaxError           \<comment> \<open>thrown by \<open>JSON.parse\<close>\<close>
  | HostException         \<comment> \<open>thrown by a method of the host's \<open>Utilities\<close> service\<close>

subsection \<open>Strings\<close>

text \<open>\<open>s.indexOf(t)\<close>: the position of the first occurrence of \<open>t\<close> in \<open>s\<close>, or \<open>-1\<close>.\<close>

fun indexOf_from :: "nat \<Rightarrow> string \<Rightarrow> string \<Rightarrow> int" where
  "indexOf_from i [] t = (if t = [] then int i else - 1)"
| "indexOf_from i (c # cs) t =
     (if take (length t) (c # cs) = t then int i else indexOf_from (Suc i) cs t)"

definition indexOf :: "string \<Rightarrow> string \<Rightarrow> int" where
  "indexOf s t = indexOf_from 0 s t"

text \<open>\<open>xs.join(sep)\<close> on an array of strings.\<close>

fun join :: "string \<Rightarrow> string list \<Rightarrow> string" where
  "join sep [] = []"
| "join sep [x] = x"
| "join sep (x # y # ys) = x @ sep @ join sep (y # ys)"

text \<open>
  \<open>s.split(c)\<close> for a separator of one character: the pieces between the occurrences of
  \<open>c\<close>; the result is never empty (\<open>"".split(".")\<close> is \<open>[""]\<close>).
\<close>

fun split :: "char \<Rightarrow> string \<Rightarrow> string list" where
  "split c [] = [[]]"
| "split c (x # xs) =
     (if x = c then [] # split c xs
      else (case split c xs of [] \<Rightarrow> [[x]] | w # ws \<Rightarrow> (x # w) # ws))"

text \<open>\<open>xs[i]\<close> on an array: \<open>undefined\<close> (here \<open>None\<close>) out of range.\<close>

definition at_index :: "'a list \<Rightarrow> nat \<Rightarrow> 'a option" where
  "at_index xs i = (if i < length xs then Some (xs ! i) else None)"

text \<open>
  \<open>encodeURIComponent\<close>: every character outside the unreserved set is replaced by the
  bytes of its UTF-8 encoding, each written as \<open>%\<close> and two upper-case hexadecimal digits.
  On the UTF-8 bytes of a string this is a byte-by-byte map.
\<close>

definition uriUnreserved :: "char \<Rightarrow> bool" where
  "uriUnreserved c \<longleftrightarrow>
     c \<in> set ''ABCDEFGHIJKLMNOPQRSTUVWXYZabcdefghijklmnopqrstuvwxyz0123456789-_.!~*()''
     \<or> c = CHR 0x27"

definition hexDigit :: "nat \<Rightarrow> char" where
  "hexDigit n = ''0123456789ABCDEF'' ! (n mod 16)"

definition percentEncode :: "char \<Rightarrow> string" where
  "percentEncode c =
     [CHR ''%'', hexDigit (of_char c div 16), hexDigit (of_char c mod 16)]"

definition encodeURIComponent :: "string \<Rightarrow> string" where
  "encodeURIComponent s =
     concat (map (\<lambda>c. if uriUnreserved c then [c] else percentEncode c) s)"

subsection \<open>Numbers and dates\<close>

text \<open>
  A JavaScript number is an IEEE double. The model keeps the three special values apart
  and takes a finite number as the rational it denotes (negative zero is identified with
  zero). Arithmetic is exact where the host rounds. \<open>getTimeInSeconds_\<close> is the only
  function below that computes with numbers, and its result does not see the rounding: the
  time value \<open>t\<close> of a Date is an integer with \<open>\<bar>t\<bar> \<le> 8.64e15\<close>, the double nearest to
  \<open>t / 1000\<close> lies within \<open>2^-11\<close> of it while a non-integral \<open>t / 1000\<close> is at least
  \<open>10^-3\<close> away from the next integer, and so both have the same floor.
\<close>

datatype jsnum = NaN | PosInfinity | NegInfinity | Num rat

text \<open>The operator \<open>/\<close>.\<close>

fun num_divide :: "jsnum \<Rightarrow> jsnum \<Rightarrow> jsnum" where
  "num_divide NaN y = NaN"
| "num_divide x NaN = NaN"
| "num_divide (Num a) (Num b) =
     (if b = 0 then (if a = 0 then NaN else if 0 < a then PosInfinity else NegInfinity)
      else Num (a / b))"
| "num_divide (Num a) y = Num 0"
| "num_divide PosInfinity (Num b) = (if 0 \<le> b then PosInfinity else NegInfinity)"
| "num_divide NegInfinity (Num b) = (if 0 \<le> b then NegInfinity else PosInfinity)"
| "num_divide x y = NaN"

text \<open>\<open>Math.floor\<close>.\<close>

fun Math_floor :: "jsnum \<Rightarrow> jsnum" where
  "Math_floor (Num q) = Num (of_int \<lfloor>q\<rfloor>)"
| "Math_floor x = x"


text \<open>
  A Date object holds a time value: the number of milliseconds since the epoch, or \<open>NaN\<close>
  for an invalid date. \<open>getTime\<close> reads it.
\<close>

datatype Date = Date (getTime: jsnum)

subsection \<open>Objects as property lists\<close>

text \<open>
  The own enumerable properties of an object, in enumeration order. The keys of an
  object are distinct.
\<close>

type_synonym 'v obj = "(string \<times> 'v) list"

definition Object_keys :: "'v obj \<Rightarrow> string list" where
  "Object_keys ob = map fst ob"

definition wf_obj :: "'v obj \<Rightarrow> bool" where
  "wf_obj ob \<longleftrightarrow> distinct (map fst ob)"

subsection \<open>buildUrl_\<close>

text \<open>
  \<^verbatim>\<open>
  function buildUrl_(url, params) {
    var paramString = Object.keys(params).map(function(key) {
      return encodeURIComponent(key) + '=' + encodeURIComponent(params[key]);
    }).join('&');
    return url + (url.indexOf('?') >= 0 ? '&' : '?') + paramString;
  }
  \<close>
  The parameter map has the type the source documents, \<open>Object.<string, string>\<close>. A read
  \<open>params[key]\<close> of a key that the object lacks gives \<open>undefined\<close>, which
  \<open>encodeURIComponent\<close> converts to the string \<open>undefined\<close>; the keys come from
  \<open>Object.keys(params)\<close>, so that branch is never taken on an object.
\<close>

definition buildUrl :: "string \<Rightarrow> string obj \<Rightarrow> string" where
  "buildUrl url params =
     (let paramString =
        join ''&'' (map (\<lambda>key. encodeURIComponent key @ ''='' @
                           encodeURIComponent
                             (case map_of params key of None \<Rightarrow> ''undefined'' | Some v \<Rightarrow> v))
                        (Object_keys params))
      in url @ (if 0 \<le> indexOf url ''?'' then ''&'' else ''?'') @ paramString)"

subsection \<open>getTimeInSeconds_\<close>

text \<open>
  \<^verbatim>\<open>
  function getTimeInSeconds_(date) {
    return Math.floor(date.getTime() / 1000);
  }
  \<close>
\<close>

definition getTimeInSeconds :: "Date \<Rightarrow> jsnum" where
  "getTimeInSeconds date = Math_floor (num_divide (getTime date) (Num 1000))"

text \<open>
  The reading of the specification's "truncated toward zero": the integer part of a
  rational, dropping the fraction.
\<close>

definition truncate_toward_zero :: "rat \<Rightarrow> int" where
  "truncate_toward_zero q = (if 0 \<le> q then \<lfloor>q\<rfloor> else \<lceil>q\<rceil>)"

subsection \<open>Values and the store\<close>

text \<open>
  A value, as the language passes it around: a primitive, or a reference to an object in
  the store. Two references are the same object exactly when the addresses are equal.
\<close>

type_synonym addr = nat

datatype jsval =
    Undefined
  | Null
  | Boolean bool
  | Number jsnum
  | Str string
  | Object addr

text \<open>\<open>ToBoolean\<close>, the test behind \<open>!value\<close>: the falsy values are \<open>undefined\<close>,
  \<open>null\<close>, \<open>false\<close>, zero, \<open>NaN\<close> and the empty string.\<close>

fun ToBoolean :: "jsval \<Rightarrow> bool" where
  "ToBoolean Undefined = False"
| "ToBoolean Null = False"
| "ToBoolean (Boolean b) = b"
| "ToBoolean (Number NaN) = False"
| "ToBoolean (Number (Num q)) = (q \<noteq> 0)"
| "ToBoolean (Number n) = True"
| "ToBoolean (Str s) = (s \<noteq> [])"
| "ToBoolean (Object a) = True"

text \<open>A property read \<open>ob[k]\<close>: \<open>undefined\<close> when the object has no such property.\<close>

definition get_own :: "jsval obj \<Rightarrow> string \<Rightarrow> jsval" where
  "get_own ob k = (case map_of ob k of None \<Rightarrow> Undefined | Some v \<Rightarrow> v)"

text \<open>
  A property write \<open>ob[k] = v\<close>. An existing property keeps its place. A new property
  goes where the host enumerates it: an array index (the canonical decimal numeral of a
  number below \<open>2^32 - 1\<close>) goes among the array indices in ascending order, which come
  first; any other key goes last.
\<close>

definition digit_value :: "char \<Rightarrow> nat" where
  "digit_value c = of_char c - 48"

definition is_digit :: "char \<Rightarrow> bool" where
  "is_digit c \<longleftrightarrow> 48 \<le> (of_char c :: nat) \<and> (of_char c :: nat) \<le> 57"

definition index_value :: "string \<Rightarrow> nat" where
  "index_value k = foldl (\<lambda>n c. 10 * n + digit_value c) 0 k"

definition is_array_index :: "string \<Rightarrow> bool" where
  "is_array_index k \<longleftrightarrow>
     k \<noteq> [] \<and> list_all is_digit k \<and> (k = ''0'' \<or> hd k \<noteq> CHR ''0'')
     \<and> index_value k < 2 ^ 32 - 1"

definition goes_before :: "string \<Rightarrow> string \<Rightarrow> bool" where
  "goes_before k k' \<longleftrightarrow>
     is_array_index k \<and> (\<not> is_array_index k' \<or> index_value k < index_value k')"

fun insert_prop :: "string \<Rightarrow> 'v \<Rightarrow> 'v obj \<Rightarrow> 'v obj" where
  "insert_prop k v [] = [(k, v)]"
| "insert_prop k v ((k', v') # rest) =
     (if goes_before k k' then (k, v) # (k', v') # rest
      else (k', v') # insert_prop k v rest)"

definition obj_set :: "'v obj \<Rightarrow> string \<Rightarrow> 'v \<Rightarrow> 'v obj" where
  "obj_set ob k v =
     (if k \<in> set (map fst ob)
      then map (\<lambda>(k', v'). if k' = k then (k', v) else (k', v')) ob
      else insert_prop k v ob)"





subsection \<open>validate_\<close>

text \<open>
  \<^verbatim>\<open>
  function validate_(params) {
    Object.keys(params).forEach(function(name) {
      var value = params[name];
      if (!value) {
        throw new Error(name + ' is required.');
      }
    });
  }
  \<close>
  \<open>forEach\<close> calls the function on each element in turn; an exception thrown by a call
  ends the loop and leaves \<open>validate_\<close>.
\<close>

fun forEach :: "'a list \<Rightarrow> ('a \<Rightarrow> error + unit) \<Rightarrow> error + unit" where
  "forEach [] f = Inr ()"
| "forEach (x # xs) f = (case f x of Inl e \<Rightarrow> Inl e | Inr u \<Rightarrow> forEach xs f)"

definition validate :: "jsval obj \<Rightarrow> error + unit" where
  "validate params =
     forEach (Object_keys params)
       (\<lambda>name. let value = get_own params name
               in if \<not> ToBoolean value then Inl (Error (name @ '' is required.''))
                  else Inr ())"

subsection \<open>extend_\<close>




subsection \<open>toLowerCaseKeys_\<close>




subsection \<open>The host services\<close>

text \<open>
  The JWT functions call two objects of the host: the \<open>Utilities\<close> service of Apps Script
  and the \<open>JSON\<close> object of the language. Neither is code of the module. Each is a record of
  functions that the model takes as a parameter, written where the source writes the
  global name; the properties below hold for every host that keeps the contract stated with
  them, and \<open>ref_Utilities\<close> and \<open>ref_JSON\<close> are one such host, defined in full.

  A value handed to \<open>JSON.stringify\<close> is taken with everything reachable from it, as a tree:
  the JWT functions neither write to their arguments nor compare references.
  \<open>JUndefined\<close> stands for a property or an element that is \<open>undefined\<close>.
\<close>

datatype json =
    JUndefined
  | JNull
  | JBoolean bool
  | JNumber jsnum
  | JString string
  | JArray "json list"
  | JObject "(string \<times> json) list"

datatype blob = Blob string

text \<open>
  An argument of type \<open>string option\<close> is a string or \<open>undefined\<close>. Byte arrays and
  strings are both lists of bytes, so that the two overloads of \<open>base64EncodeWebSafe\<close>
  (on a string, which it encodes as UTF-8, and on a byte array) are one function.
\<close>

record utilities =
  base64EncodeWebSafe :: "string option \<Rightarrow> error + string"
  base64DecodeWebSafe :: "string option \<Rightarrow> error + string"
  computeRsaSha256Signature :: "string \<Rightarrow> string \<Rightarrow> error + string"
  newBlob :: "string \<Rightarrow> blob"
  getDataAsString :: "blob \<Rightarrow> string"

text \<open>\<open>JSON.stringify\<close> returns a string, or \<open>undefined\<close> (here \<open>None\<close>).\<close>

record json_api =
  stringify :: "json \<Rightarrow> string option"
  parse :: "string \<Rightarrow> error + json"

text \<open>\<open>Object.assign(target, source)\<close>: writes every property of the source to the target,
  in the enumeration order of the source, and returns the target.\<close>

definition Object_assign :: "'v obj \<Rightarrow> 'v obj \<Rightarrow> 'v obj" where
  "Object_assign target source = foldl (\<lambda>t (k, v). obj_set t k v) target source"

subsection \<open>computeJWTSignatureDefault_\<close>

text \<open>
  \<^verbatim>\<open>
  function computeJWTSignatureDefault_(toSign, key) {
    var signatureBytes =
        Utilities.computeRsaSha256Signature(toSign, key);
    return Utilities.base64EncodeWebSafe(signatureBytes);
  }
  \<close>
\<close>

definition computeJWTSignatureDefault :: "utilities \<Rightarrow> string \<Rightarrow> string \<Rightarrow> error + string" where
  "computeJWTSignatureDefault Utilities toSign key =
     (case computeRsaSha256Signature Utilities toSign key of
        Inl e \<Rightarrow> Inl e
      | Inr signatureBytes \<Rightarrow> base64EncodeWebSafe Utilities (Some signatureBytes))"

subsection \<open>encodeJwt_\<close>

text \<open>
  \<^verbatim>\<open>
  function encodeJwt_(payload, key, customOptions) {
    var customOptions = customOptions || {};
    var header = Object.assign({
      alg: 'RS256',
      typ: 'JWT'
    }, customOptions.header || {});
    var computeJWTSignature = typeof customOptions.computeJWTSignature === 'function' ?
        customOptions.computeJWTSignature : computeJWTSignatureDefault_;
    var toSign = Utilities.base64EncodeWebSafe(JSON.stringify(header)) + '.' +
        Utilities.base64EncodeWebSafe(JSON.stringify(payload));
    var signature = computeJWTSignature(toSign, key);
    return toSign + '.' + signature;
  }
  \<close>
  The options have the types the source documents: \<open>header\<close> is an object when it is
  there, and \<open>computeJWTSignature\<close> is \<open>Some f\<close> exactly when the option is a function. A
  signing function takes the string to sign and the key and returns a string, or throws.
\<close>

record custom_options =
  header :: "json obj option"
  computeJWTSignature :: "(string \<Rightarrow> string \<Rightarrow> error + string) option"

definition encodeJwt ::
  "utilities \<Rightarrow> json_api \<Rightarrow> json \<Rightarrow> string \<Rightarrow> custom_options option \<Rightarrow> error + string" where
  "encodeJwt Utilities JSON payload key customOptions =
     (let customOptions =
            (case customOptions of
               None \<Rightarrow> \<lparr>header = None, computeJWTSignature = None\<rparr>
             | Some c \<Rightarrow> c);
          header =
            Object_assign [(''alg'', JString ''RS256''), (''typ'', JString ''JWT'')]
              (case header customOptions of None \<Rightarrow> [] | Some H \<Rightarrow> H);
          computeJWTSignature =
            (case computeJWTSignature customOptions of
               Some f \<Rightarrow> f
             | None \<Rightarrow> computeJWTSignatureDefault Utilities)
      in case base64EncodeWebSafe Utilities (stringify JSON (JObject header)) of
           Inl e \<Rightarrow> Inl e
         | Inr header64 \<Rightarrow>
             (case base64EncodeWebSafe Utilities (stringify JSON payload) of
                Inl e \<Rightarrow> Inl e
              | Inr payload64 \<Rightarrow>
                  (let toSign = header64 @ ''.'' @ payload64
                   in case computeJWTSignature toSign key of
                        Inl e \<Rightarrow> Inl e
                      | Inr signature \<Rightarrow> Inr (toSign @ ''.'' @ signature))))"

subsection \<open>decodeJwt_\<close>

text \<open>
  \<^verbatim>\<open>
  function decodeJwt_(jwt) {
    var payload = jwt.split('.')[1];
    var blob = Utilities.newBlob(Utilities.base64DecodeWebSafe(payload));
    return JSON.parse(blob.getDataAsString());
  }
  \<close>
\<close>

definition decodeJwt :: "utilities \<Rightarrow> json_api \<Rightarrow> string \<Rightarrow> error + json" where
  "decodeJwt Utilities JSON jwt =
     (let payload = at_index (split CHR ''.'' jwt) 1
      in case base64DecodeWebSafe Utilities payload of
           Inl e \<Rightarrow> Inl e
         | Inr bytes \<Rightarrow>
             (let blob = newBlob Utilities bytes
              in parse JSON (getDataAsString Utilities blob)))"

subsection \<open>The contract of the host\<close>

text \<open>
  What the JWT functions rely on. Web-safe base64 encodes every string, into the
  alphabet of letters, digits, \<open>-\<close>, \<open>_\<close> and the padding \<open>=\<close>, so never with a dot; and
  decoding an encoding and reading the bytes back as a string gives the string.
\<close>

definition base64_contract :: "utilities \<Rightarrow> bool" where
  "base64_contract Utilities \<longleftrightarrow>
     (\<forall>s. \<exists>e. base64EncodeWebSafe Utilities (Some s) = Inr e
            \<and> CHR ''.'' \<notin> set e
            \<and> (\<exists>b. base64DecodeWebSafe Utilities (Some e) = Inr b
                   \<and> getDataAsString Utilities (newBlob Utilities b) = s))"

text \<open>\<open>JSON.stringify\<close> of an object is a string, never \<open>undefined\<close>.\<close>

definition stringify_contract :: "json_api \<Rightarrow> bool" where
  "stringify_contract JSON \<longleftrightarrow> (\<forall>ob. \<exists>s. stringify JSON (JObject ob) = Some s)"

text \<open>
  A value is JSON-serializable when \<open>JSON.stringify\<close> gives a string for it and
  \<open>JSON.parse\<close> of that string gives a value equal to it.
\<close>

definition json_serializable :: "json_api \<Rightarrow> json \<Rightarrow> bool" where
  "json_serializable JSON v \<longleftrightarrow> (\<exists>s. stringify JSON v = Some s \<and> parse JSON s = Inr v)"

section \<open>A reference host\<close>

text \<open>
  One host that keeps the contract, defined in full so that the functions can be run.
  \<open>ref_Utilities\<close> encodes in web-safe base64 with padding (RFC 4648, section 5), as Apps
  Script does, and reads a blob back as the bytes it was made of. It has no RSA: its
  \<open>computeRsaSha256Signature\<close> throws, as the host does on a key it cannot read.
\<close>

definition b64_char :: "nat \<Rightarrow> char" where
  "b64_char n =
     ''ABCDEFGHIJKLMNOPQRSTUVWXYZabcdefghijklmnopqrstuvwxyz0123456789-_'' ! (n mod 64)"

definition b64_value :: "char \<Rightarrow> nat option" where
  "b64_value c =
     (let n = of_char c :: nat
      in if 65 \<le> n \<and> n \<le> 90 then Some (n - 65)
         else if 97 \<le> n \<and> n \<le> 122 then Some (n - 71)
         else if 48 \<le> n \<and> n \<le> 57 then Some (n + 4)
         else if n = 45 then Some 62
         else if n = 95 then Some 63
         else None)"

fun b64_encode :: "string \<Rightarrow> string" where
  "b64_encode [] = []"
| "b64_encode [a] =
     (let x = of_char a
      in [b64_char (x div 4), b64_char (x mod 4 * 16), CHR ''='', CHR ''=''])"
| "b64_encode [a, b] =
     (let x = of_char a; y = of_char b
      in [b64_char (x div 4), b64_char (x mod 4 * 16 + y div 16),
          b64_char (y mod 16 * 4), CHR ''=''])"
| "b64_encode (a # b # c # rest) =
     (let x = of_char a; y = of_char b; z = of_char c
      in [b64_char (x div 4), b64_char (x mod 4 * 16 + y div 16),
          b64_char (y mod 16 * 4 + z div 64), b64_char (z mod 64)] @ b64_encode rest)"

fun b64_decode :: "string \<Rightarrow> string option" where
  "b64_decode [] = Some []"
| "b64_decode (a # b # c # d # rest) =
     (case (b64_value a, b64_value b) of
        (Some p, Some q) \<Rightarrow>
          (if c = CHR ''='' \<and> d = CHR ''='' \<and> rest = [] then Some [char_of (p * 4 + q div 16)]
           else (case b64_value c of
                   None \<Rightarrow> None
                 | Some r \<Rightarrow>
                     (if d = CHR ''='' \<and> rest = []
                      then Some [char_of (p * 4 + q div 16), char_of (q mod 16 * 16 + r div 4)]
                      else (case (b64_value d, b64_decode rest) of
                              (Some s, Some bytes) \<Rightarrow>
                                Some (char_of (p * 4 + q div 16) # char_of (q mod 16 * 16 + r div 4)
                                      # char_of (r mod 4 * 64 + s) # bytes)
                            | _ \<Rightarrow> None))))
      | _ \<Rightarrow> None)"
| "b64_decode s = None"

definition ref_Utilities :: utilities where
  "ref_Utilities =
     \<lparr>base64EncodeWebSafe =
        (\<lambda>data. case data of None \<Rightarrow> Inl HostException | Some s \<Rightarrow> Inr (b64_encode s)),
      base64DecodeWebSafe =
        (\<lambda>encoded. case encoded of
                      None \<Rightarrow> Inl HostException
                    | Some e \<Rightarrow> (case b64_decode e of None \<Rightarrow> Inl HostException | Some b \<Rightarrow> Inr b)),
      computeRsaSha256Signature = (\<lambda>toSign key. Inl HostException),
      newBlob = Blob,
      getDataAsString = (\<lambda>blob. case blob of Blob bytes \<Rightarrow> bytes)\<rparr>"


text \<open>
  \<open>ref_JSON\<close> serializes as \<open>JSON.stringify\<close> does: \<open>undefined\<close> has no text, a
  property whose value is \<open>undefined\<close> is left out, an element that is \<open>undefined\<close> and a
  number that is not finite are written \<open>null\<close>, and strings are quoted with the escapes of
  ECMA-262. Numbers are where it is only a stand-in: an integer is written in decimal, and
  a fraction with up to 17 digits of its exact expansion, where the host writes the
  shortest decimal that reads back as the same double. Its parser reads what the
  serializer writes, with optional white space; exponents and \<open>\\u\<close> escapes above
  \<open>007f\<close> are outside it and give a \<open>SyntaxError\<close>. The fuel of the parser is twice
  the length of the text and two, more than the depth of any parse of the text.
\<close>


definition digit_char :: "nat \<Rightarrow> char" where
  "digit_char n = ''0123456789'' ! (n mod 10)"

fun nat_string :: "nat \<Rightarrow> string" where
  "nat_string n = (if n < 10 then [digit_char n] else nat_string (n div 10) @ [digit_char n])"

declare nat_string.simps [simp del]

definition int_string :: "int \<Rightarrow> string" where
  "int_string i = (if i < 0 then CHR ''-'' # nat_string (nat (- i)) else nat_string (nat i))"

fun fraction_digits :: "nat \<Rightarrow> rat \<Rightarrow> string" where
  "fraction_digits 0 r = []"
| "fraction_digits (Suc n) r =
     (if r = 0 then []
      else digit_char (nat \<lfloor>r * 10\<rfloor>) # fraction_digits n (r * 10 - of_int \<lfloor>r * 10\<rfloor>))"

definition number_string :: "jsnum \<Rightarrow> string" where
  "number_string x =
     (case x of
        Num q \<Rightarrow>
          (if of_int \<lfloor>q\<rfloor> = q then int_string \<lfloor>q\<rfloor>
           else (if q < 0 then ''-'' else []) @ nat_string (nat \<lfloor>\<bar>q\<bar>\<rfloor>) @ ''.'' @
                fraction_digits 17 (\<bar>q\<bar> - of_int \<lfloor>\<bar>q\<bar>\<rfloor>))
      | _ \<Rightarrow> ''null'')"

definition hex_lower :: "nat \<Rightarrow> char" where
  "hex_lower n = ''0123456789abcdef'' ! (n mod 16)"

definition json_escape :: "char \<Rightarrow> string" where
  "json_escape c =
     (if c = CHR 0x22 then [CHR 0x5C, CHR 0x22]
      else if c = CHR 0x5C then [CHR 0x5C, CHR 0x5C]
      else if c = CHR 0x08 then [CHR 0x5C, CHR ''b'']
      else if c = CHR 0x0C then [CHR 0x5C, CHR ''f'']
      else if c = CHR 0x0A then [CHR 0x5C, CHR ''n'']
      else if c = CHR 0x0D then [CHR 0x5C, CHR ''r'']
      else if c = CHR 0x09 then [CHR 0x5C, CHR ''t'']
      else if (of_char c :: nat) < 32
        then [CHR 0x5C, CHR ''u'', CHR ''0'', CHR ''0'',
              hex_lower (of_char c div 16), hex_lower (of_char c mod 16)]
      else [c])"

definition QuoteJSONString :: "string \<Rightarrow> string" where
  "QuoteJSONString s = CHR 0x22 # concat (map json_escape s) @ [CHR 0x22]"

fun stringify_value :: "json \<Rightarrow> string"
  and stringify_elements :: "json list \<Rightarrow> string list"
  and stringify_members :: "(string \<times> json) list \<Rightarrow> string list" where
  "stringify_value JUndefined = ''null''"
| "stringify_value JNull = ''null''"
| "stringify_value (JBoolean b) = (if b then ''true'' else ''false'')"
| "stringify_value (JNumber n) = number_string n"
| "stringify_value (JString s) = QuoteJSONString s"
| "stringify_value (JArray xs) = ''['' @ join '','' (stringify_elements xs) @ '']''"
| "stringify_value (JObject ps) = ''{'' @ join '','' (stringify_members ps) @ ''}''"
| "stringify_elements [] = []"
| "stringify_elements (x # xs) = stringify_value x # stringify_elements xs"
| "stringify_members [] = []"
| "stringify_members ((k, v) # ps) =
     (if v = JUndefined then stringify_members ps
      else (QuoteJSONString k @ '':'' @ stringify_value v) # stringify_members ps)"

definition is_ws :: "char \<Rightarrow> bool" where
  "is_ws c \<longleftrightarrow> c = CHR '' '' \<or> c = CHR 0x09 \<or> c = CHR 0x0A \<or> c = CHR 0x0D"

definition skip_ws :: "string \<Rightarrow> string" where
  "skip_ws s = dropWhile is_ws s"

definition unescape :: "char \<Rightarrow> char option" where
  "unescape e =
     map_of [(CHR 0x22, CHR 0x22), (CHR 0x5C, CHR 0x5C), (CHR ''/'', CHR ''/''),
             (CHR ''b'', CHR 0x08), (CHR ''f'', CHR 0x0C), (CHR ''n'', CHR 0x0A),
             (CHR ''r'', CHR 0x0D), (CHR ''t'', CHR 0x09)] e"

definition hex_value :: "char \<Rightarrow> nat option" where
  "hex_value c = map_of (zip ''0123456789abcdefABCDEF'' ([0 ..< 16] @ [10 ..< 16])) c"

definition hex4 :: "char \<Rightarrow> char \<Rightarrow> char \<Rightarrow> char \<Rightarrow> char option" where
  "hex4 a b c d =
     (case (hex_value a, hex_value b, hex_value c, hex_value d) of
        (Some p, Some q, Some r, Some s) \<Rightarrow>
          (if p = 0 \<and> q = 0 \<and> r < 8 then Some (char_of (r * 16 + s)) else None)
      | _ \<Rightarrow> None)"

fun parse_chars :: "string \<Rightarrow> (string \<times> string) option" where
  "parse_chars [] = None"
| "parse_chars (c # cs) =
     (if c = CHR 0x22 then Some ([], cs)
      else if c = CHR 0x5C then
        (case cs of
           [] \<Rightarrow> None
         | e # cs' \<Rightarrow>
             (if e = CHR ''u'' then
                (case cs' of
                   h1 # h2 # h3 # h4 # cs'' \<Rightarrow>
                     (case (hex4 h1 h2 h3 h4, parse_chars cs'') of
                        (Some ch, Some (s, rest)) \<Rightarrow> Some (ch # s, rest)
                      | _ \<Rightarrow> None)
                 | _ \<Rightarrow> None)
              else
                (case (unescape e, parse_chars cs') of
                   (Some ch, Some (s, rest)) \<Rightarrow> Some (ch # s, rest)
                 | _ \<Rightarrow> None)))
      else if (of_char c :: nat) < 32 then None
      else (case parse_chars cs of Some (s, rest) \<Rightarrow> Some (c # s, rest) | None \<Rightarrow> None))"

definition parse_number :: "string \<Rightarrow> (jsnum \<times> string) option" where
  "parse_number s =
     (let negative = (take 1 s = ''-'');
          s1 = (if negative then drop 1 s else s);
          ds = takeWhile is_digit s1;
          s2 = dropWhile is_digit s1;
          sign = (if negative then - 1 else 1)
      in if ds = [] \<or> (1 < length ds \<and> hd ds = CHR ''0'') then None
         else if take 1 s2 = ''.'' then
           (let fs = takeWhile is_digit (drop 1 s2);
                s3 = dropWhile is_digit (drop 1 s2)
            in if fs = [] then None
               else Some (Num (sign * (of_nat (index_value ds)
                                       + of_nat (index_value fs) / 10 ^ length fs)), s3))
         else Some (Num (sign * of_nat (index_value ds)), s2))"

fun parse_value :: "nat \<Rightarrow> string \<Rightarrow> (json \<times> string) option"
  and parse_elements :: "nat \<Rightarrow> string \<Rightarrow> (json list \<times> string) option"
  and parse_members :: "nat \<Rightarrow> string \<Rightarrow> ((string \<times> json) list \<times> string) option" where
  "parse_value 0 s = None"
| "parse_value (Suc n) s =
     (case skip_ws s of
        [] \<Rightarrow> None
      | c # cs \<Rightarrow>
          (if c = CHR 0x22 then
             (case parse_chars cs of Some (str, rest) \<Rightarrow> Some (JString str, rest) | None \<Rightarrow> None)
           else if c = CHR ''['' then
             (if take 1 (skip_ws cs) = '']'' then Some (JArray [], drop 1 (skip_ws cs))
              else (case parse_elements n cs of
                      Some (xs, rest) \<Rightarrow> Some (JArray xs, rest)
                    | None \<Rightarrow> None))
           else if c = CHR ''{'' then
             (if take 1 (skip_ws cs) = ''}'' then Some (JObject [], drop 1 (skip_ws cs))
              else (case parse_members n cs of
                      Some (ps, rest) \<Rightarrow> Some (JObject ps, rest)
                    | None \<Rightarrow> None))
           else if take 4 (c # cs) = ''true'' then Some (JBoolean True, drop 4 (c # cs))
           else if take 5 (c # cs) = ''false'' then Some (JBoolean False, drop 5 (c # cs))
           else if take 4 (c # cs) = ''null'' then Some (JNull, drop 4 (c # cs))
           else (case parse_number (c # cs) of
                   Some (x, rest) \<Rightarrow> Some (JNumber x, rest)
                 | None \<Rightarrow> None)))"
| "parse_elements 0 s = None"
| "parse_elements (Suc n) s =
     (case parse_value n s of
        None \<Rightarrow> None
      | Some (x, rest) \<Rightarrow>
          (case skip_ws rest of
             [] \<Rightarrow> None
           | c # cs \<Rightarrow>
               (if c = CHR '']'' then Some ([x], cs)
                else if c = CHR '','' then
                  (case parse_elements n cs of
                     Some (xs, rest') \<Rightarrow> Some (x # xs, rest')
                   | None \<Rightarrow> None)
                else None)))"
| "parse_members 0 s = None"
| "parse_members (Suc n) s =
     (case skip_ws s of
        [] \<Rightarrow> None
      | q # s1 \<Rightarrow>
          (if q \<noteq> CHR 0x22 then None
           else (case parse_chars s1 of
                   None \<Rightarrow> None
                 | Some (k, s2) \<Rightarrow>
                     (if take 1 (skip_ws s2) \<noteq> '':'' then None
                      else (case parse_value n (drop 1 (skip_ws s2)) of
                              None \<Rightarrow> None
                            | Some (v, s3) \<Rightarrow>
                                (case skip_ws s3 of
                                   [] \<Rightarrow> None
                                 | c # cs \<Rightarrow>
                                     (if c = CHR ''}'' then Some ([(k, v)], cs)
                                      else if c = CHR '','' then
                                        (case parse_members n cs of
                                           Some (ps, rest) \<Rightarrow> Some ((k, v) # ps, rest)
                                         | None \<Rightarrow> None)
                                      else None)))))))"

definition ref_JSON :: json_api where
  "ref_JSON =
     \<lparr>stringify = (\<lambda>v. if v = JUndefined then None else Some (stringify_value v)),
      parse =
        (\<lambda>text. case parse_value (Suc (Suc (length text + length text))) text of
                   None \<Rightarrow> Inl SyntaxError
                 | Some (v, rest) \<Rightarrow> if skip_ws rest = [] then Inr v else Inl SyntaxError)\<rparr>"

section \<open>The loop bodies, named\<close>



section \<open>Properties\<close>

subsection \<open>Strings\<close>

lemma indexOf_from_char:
  "(0 \<le> indexOf_from i s [c]) \<longleftrightarrow> c \<in> set s"
  by (induction s arbitrary: i) auto

lemma indexOf_char: "(0 \<le> indexOf s [c]) \<longleftrightarrow> c \<in> set s"
  by (simp add: indexOf_def indexOf_from_char)

subsection \<open>Property lists\<close>

lemma insert_prop_split:
  "\<exists>pre post. ob = pre @ post \<and> insert_prop k v ob = pre @ (k, v) # post"
proof (induction ob)
  case Nil
  show ?case by simp
next
  case (Cons p ob)
  obtain k' v' where p: "p = (k', v')" by (cases p)
  from Cons.IH obtain pre post
    where ob: "ob = pre @ post" and ins: "insert_prop k v ob = pre @ (k, v) # post"
    by blast
  show ?case
  proof (cases "goes_before k k'")
    case True
    then have "insert_prop k v (p # ob) = [] @ (k, v) # (p # ob)"
      unfolding p by simp
    then show ?thesis by (metis append_Nil)
  next
    case False
    then have "insert_prop k v (p # ob) = (p # pre) @ (k, v) # post"
      unfolding p using ins by simp
    moreover have "p # ob = (p # pre) @ post"
      using ob by simp
    ultimately show ?thesis by blast
  qed
qed


lemma keys_insert_prop:
  "set (map fst (insert_prop k v ob)) = insert k (set (map fst ob))"
proof -
  obtain pre post
    where ob: "ob = pre @ post" and ins: "insert_prop k v ob = pre @ (k, v) # post"
    using insert_prop_split [of ob k v] by blast
  show ?thesis unfolding ins unfolding ob by simp
qed




lemma keys_replace:
  "map fst (map (\<lambda>(k', v'). if k' = k then (k', v) else (k', v')) ob) = map fst ob"
  by (induction ob) (simp_all add: case_prod_beta)


lemma obj_set_old:
  "k \<in> set (map fst ob) \<Longrightarrow> map fst (obj_set ob k v) = map fst ob"
proof -
  assume "k \<in> set (map fst ob)"
  then have "obj_set ob k v = map (\<lambda>(k', v'). if k' = k then (k', v) else (k', v')) ob"
    unfolding obj_set_def by (rule if_P)
  then show ?thesis by (simp only: keys_replace)
qed

lemma obj_set_new:
  "k \<notin> set (map fst ob) \<Longrightarrow> obj_set ob k v = insert_prop k v ob"
  unfolding obj_set_def by (rule if_not_P)

lemma keys_obj_set: "set (map fst (obj_set ob k v)) = insert k (set (map fst ob))"
proof (cases "k \<in> set (map fst ob)")
  case True
  then show ?thesis by (simp only: obj_set_old) blast
next
  case False
  show ?thesis by (simp only: obj_set_new [OF False] keys_insert_prop)
qed


lemma get_own_key:
  "wf_obj ob \<Longrightarrow> (k, v) \<in> set ob \<Longrightarrow> get_own ob k = v"
  by (simp add: wf_obj_def get_own_def)

subsection \<open>validate_\<close>

lemma forEach_validate:
  "wf_obj (pre @ qs) \<Longrightarrow>
   forEach (map fst qs)
     (\<lambda>name. let value = get_own (pre @ qs) name
             in if \<not> ToBoolean value then Inl (Error (name @ '' is required.''))
                else Inr ()) =
     (case find (\<lambda>(k, v). \<not> ToBoolean v) qs of
        None \<Rightarrow> Inr ()
      | Some (k, v) \<Rightarrow> Inl (Error (k @ '' is required.'')))"
proof (induction qs arbitrary: pre)
  case Nil
  then show ?case by simp
next
  case (Cons kv qs)
  obtain k v where kv: "kv = (k, v)" by (cases kv)
  have v: "get_own (pre @ kv # qs) k = v"
    using Cons.prems by (simp add: get_own_key kv)
  from Cons.prems have "wf_obj ((pre @ [kv]) @ qs)" by simp
  from Cons.IH [OF this] show ?case
    using v by (simp add: kv)
qed

lemma validate_find:
  "wf_obj params \<Longrightarrow>
   validate params =
     (case find (\<lambda>(k, v). \<not> ToBoolean v) params of
        None \<Rightarrow> Inr ()
      | Some (k, v) \<Rightarrow> Inl (Error (k @ '' is required.'')))"
  using forEach_validate [of "[]" params] by (simp add: validate_def Object_keys_def)

lemma find_none_truthy:
  "(\<forall>(k, v) \<in> set ps. ToBoolean v) \<Longrightarrow> find (\<lambda>(k, v). \<not> ToBoolean v) ps = None"
  by (induction ps) auto

lemma find_first_falsy:
  "(\<forall>(k', v') \<in> set pre. ToBoolean v') \<Longrightarrow> \<not> ToBoolean v \<Longrightarrow>
   find (\<lambda>(k, v). \<not> ToBoolean v) (pre @ (k, v) # post) = Some (k, v)"
  by (induction pre) auto

text \<open>
  Claim C3. On a parameter map without a falsy value \<open>validate_\<close> returns. On a map
  \<open>pre @ (k, v) # post\<close> where \<open>v\<close> is the first falsy value in enumeration order it throws
  one \<open>Error\<close> whose message is \<open>k\<close> followed by \<open> is required.\<close>, whatever comes after.
  The empty string, \<open>null\<close>, \<open>undefined\<close>, zero and \<open>false\<close> are falsy.
\<close>

theorem validate_first_falsy:
  "(wf_obj params \<and> (\<forall>(k, v) \<in> set params. ToBoolean v) \<longrightarrow> validate params = Inr ())
   \<and> (wf_obj (pre @ (k, v) # post) \<and> (\<forall>(k', v') \<in> set pre. ToBoolean v') \<and> \<not> ToBoolean v
        \<longrightarrow> validate (pre @ (k, v) # post) = Inl (Error (k @ '' is required.'')))
   \<and> \<not> ToBoolean (Str '''') \<and> \<not> ToBoolean Null \<and> \<not> ToBoolean Undefined
   \<and> \<not> ToBoolean (Number (Num 0)) \<and> \<not> ToBoolean (Boolean False)"
proof -
  have "validate params = Inr ()"
    if "wf_obj params" and "\<forall>(k, v) \<in> set params. ToBoolean v"
    using that by (simp only: validate_find find_none_truthy option.case)
  moreover have "validate (pre @ (k, v) # post) = Inl (Error (k @ '' is required.''))"
    if wf: "wf_obj (pre @ (k, v) # post)"
      and "\<forall>(k', v') \<in> set pre. ToBoolean v'" and "\<not> ToBoolean v"
  proof -
    have "find (\<lambda>(k, v). \<not> ToBoolean v) (pre @ (k, v) # post) = Some (k, v)"
      using that(2,3) by (rule find_first_falsy)
    then show ?thesis
      using wf by (simp only: validate_find option.case prod.case)
  qed
  ultimately show ?thesis by simp
qed

theorem validate_first_falsy_witness:
  "wf_obj [(''Client ID'', Str ''abc''), (''Client Secret'', Str ''''), (''Token URL'', Undefined)]
   \<and> validate [(''Client ID'', Str ''abc''), (''Client Secret'', Str ''''), (''Token URL'', Undefined)]
       = Inl (Error ''Client Secret is required.'')
   \<and> validate [(''Client ID'', Str ''abc''), (''Retries'', Number (Num 3))] = Inr ()"
  using validate_first_falsy [where params = "[(''Client ID'', Str ''abc''), (''Retries'', Number (Num 3))]"
      and pre = "[(''Client ID'', Str ''abc'')]" and k = "''Client Secret''" and v = "Str ''''"
      and post = "[(''Token URL'', Undefined)]"]
  by (simp add: wf_obj_def)

subsection \<open>The store\<close>






subsection \<open>extend_\<close>






subsection \<open>toLowerCaseKeys_\<close>










subsection \<open>getTimeInSeconds_ and buildUrl_\<close>

lemma getTimeInSeconds_int:
  "getTimeInSeconds (Date (Num (of_int ms))) = Num (of_int (ms div 1000))"
proof -
  have "\<lfloor>(of_int ms :: rat) / 1000\<rfloor> = ms div 1000"
    using floor_divide_of_int_eq [of ms 1000, where ?'a = rat] by simp
  then show ?thesis by (simp add: getTimeInSeconds_def)
qed

lemma truncate_toward_zero_int:
  "truncate_toward_zero (of_int ms / 1000) =
     (if 0 \<le> ms then ms div 1000 else - ((- ms) div 1000))"
proof -
  have pos: "\<lfloor>(of_int ms :: rat) / 1000\<rfloor> = ms div 1000"
    using floor_divide_of_int_eq [of ms 1000, where ?'a = rat] by simp
  have neg: "\<lfloor>(of_int (- ms) :: rat) / 1000\<rfloor> = (- ms) div 1000"
    using floor_divide_of_int_eq [of "- ms" 1000, where ?'a = rat] by simp
  have sgn: "(0 \<le> (of_int ms :: rat) / 1000) = (0 \<le> ms)"
    by (simp add: zero_le_divide_iff)
  show ?thesis
    using pos neg by (simp add: truncate_toward_zero_def sgn ceiling_def)
qed

lemma trunc_floor_iff:
  "((ms::int) div 1000 = (if 0 \<le> ms then ms div 1000 else - ((- ms) div 1000)))
     = (0 \<le> ms \<or> ms mod 1000 = 0)"
  by (simp add: zdiv_zminus1_eq_if)

text \<open>
  Claim C5, as amended. For a Date whose time value is the integer \<open>ms\<close> (a date before the
  epoch has a negative one), \<open>getTimeInSeconds_\<close> returns \<open>ms div 1000\<close>, the quotient
  rounded toward negative infinity: the largest \<open>s\<close> with \<open>1000 * s \<le> ms\<close>. That is the
  truncation toward zero of which the specification speaks exactly when \<open>ms\<close> is not
  negative or is a whole number of seconds. An invalid Date gives \<open>NaN\<close>. The function has
  no error branch.
\<close>
theorem getTimeInSeconds_floor:
  "getTimeInSeconds (Date (Num (of_int ms))) = Num (of_int (ms div 1000))
   \<and> 1000 * (ms div 1000) \<le> ms \<and> ms < 1000 * (ms div 1000) + 1000
   \<and> (ms div 1000 = truncate_toward_zero (of_int ms / 1000)) = (0 \<le> ms \<or> ms mod 1000 = 0)
   \<and> getTimeInSeconds (Date NaN) = NaN"
proof -
  have "getTimeInSeconds (Date NaN) = NaN"
    by (simp add: getTimeInSeconds_def)
  moreover have "1000 * (ms div 1000) \<le> ms \<and> ms < 1000 * (ms div 1000) + 1000"
    by presburger
  moreover have "(ms div 1000 = truncate_toward_zero (of_int ms / 1000))
                   = (0 \<le> ms \<or> ms mod 1000 = 0)"
    by (simp only: truncate_toward_zero_int trunc_floor_iff)
  ultimately show ?thesis
    using getTimeInSeconds_int [of ms] by blast
qed

theorem getTimeInSeconds_floor_witness:
  "getTimeInSeconds (Date (Num 1234567)) = Num 1234
   \<and> (0::int) \<le> 1234567 \<and> truncate_toward_zero (1234567 / 1000) = 1234"
  using getTimeInSeconds_floor [of 1234567] by simp

text \<open>
  The claim as written fails one and a half seconds before the epoch: the function
  returns \<open>-2\<close>, the truncation toward zero is \<open>-1\<close>.
\<close>

theorem getTimeInSeconds_truncation_counterexample:
  "getTimeInSeconds (Date (Num (- 1500))) = Num (- 2)
   \<and> truncate_toward_zero (- 1500 / 1000) = - 1
   \<and> getTimeInSeconds (Date (Num (- 1500))) \<noteq> Num (of_int (truncate_toward_zero (- 1500 / 1000)))"
  using getTimeInSeconds_int [of "- 1500"] truncate_toward_zero_int [of "- 1500"] by simp




lemma buildUrl_pairs:
  assumes "wf_obj params"
  shows "map (\<lambda>key. encodeURIComponent key @ ''='' @
                   encodeURIComponent (case map_of params key of None \<Rightarrow> ''undefined'' | Some v \<Rightarrow> v))
             (Object_keys params)
         = map (\<lambda>(k, v). encodeURIComponent k @ ''='' @ encodeURIComponent v) params"
  using assms unfolding wf_obj_def Object_keys_def
  by (induction params) (auto simp: rev_image_eqI)

lemmas buildUrl_eval = buildUrl_def indexOf_def Object_keys_def encodeURIComponent_def
  uriUnreserved_def percentEncode_def hexDigit_def

text \<open>
  Claim C4. \<open>buildUrl_\<close> returns the base URL, then \<open>&\<close> if the base URL contains \<open>?\<close>
  and \<open>?\<close> otherwise, then the parameters in enumeration order, each as
  \<open>encodeURIComponent(key)=encodeURIComponent(value)\<close>, joined by \<open>&\<close>; and the two
  examples of the specification evaluate as stated.
\<close>
theorem buildUrl_query:
  "(wf_obj params \<longrightarrow>
      buildUrl url params =
        url @ (if CHR ''?'' \<in> set url then ''&'' else ''?'') @
        join ''&'' (map (\<lambda>(k, v). encodeURIComponent k @ ''='' @ encodeURIComponent v) params))
   \<and> buildUrl ''https://x.com/a'' [(''p'', ''1 2'')] = ''https://x.com/a?p=1%202''
   \<and> buildUrl ''https://x.com/a?x=1'' [(''p'', ''v'')] = ''https://x.com/a?x=1&p=v''"
proof -
  have "buildUrl ''https://x.com/a'' [(''p'', ''1 2'')] = ''https://x.com/a?p=1%202''"
    by (simp add: buildUrl_eval)
  moreover have "buildUrl ''https://x.com/a?x=1'' [(''p'', ''v'')] = ''https://x.com/a?x=1&p=v''"
    by (simp add: buildUrl_eval)
  moreover have "wf_obj params \<Longrightarrow> buildUrl url params =
        url @ (if CHR ''?'' \<in> set url then ''&'' else ''?'') @
        join ''&'' (map (\<lambda>(k, v). encodeURIComponent k @ ''='' @ encodeURIComponent v) params)"
    using indexOf_char [of url "CHR ''?''"] buildUrl_pairs [of params]
    by (simp add: buildUrl_def)
  ultimately show ?thesis by blast
qed

theorem buildUrl_query_witness:
  "wf_obj [(''client id'', ''a&b''), (''scope'', ''x/y'')]
   \<and> buildUrl ''https://x.com/auth?v=2'' [(''client id'', ''a&b''), (''scope'', ''x/y'')]
       = ''https://x.com/auth?v=2&client%20id=a%26b&scope=x%2Fy''"
  using buildUrl_query [of "[(''client id'', ''a&b''), (''scope'', ''x/y'')]" "''https://x.com/auth?v=2''"]
  by (simp add: wf_obj_def encodeURIComponent_def uriUnreserved_def percentEncode_def hexDigit_def)

text \<open>
  Claim C10. For the empty parameter map \<open>buildUrl_\<close> returns the base URL followed by the
  separator alone, which is never the base URL itself.
\<close>
theorem buildUrl_empty_params:
  "buildUrl url [] = url @ (if CHR ''?'' \<in> set url then ''&'' else ''?'')
   \<and> buildUrl url [] \<noteq> url"
  using indexOf_char [of url "CHR ''?''"] by (simp add: buildUrl_def Object_keys_def)

subsection \<open>The reference host keeps the contract\<close>

lemma s1: fixes x y :: nat assumes "y < 256"
  shows "(x mod 4 * 16 + y div 16) div 16 = x mod 4" "(x mod 4 * 16 + y div 16) mod 16 = y div 16"
proof -
  have "y div 16 < 16" using assms by simp
  then show "(x mod 4 * 16 + y div 16) div 16 = x mod 4" "(x mod 4 * 16 + y div 16) mod 16 = y div 16"
    by simp_all
qed

lemma s2: fixes y z :: nat assumes "z < 256"
  shows "(y mod 16 * 4 + z div 64) div 4 = y mod 16" "(y mod 16 * 4 + z div 64) mod 4 = z div 64"
proof -
  have "z div 64 < 4" using assms by simp
  then show "(y mod 16 * 4 + z div 64) div 4 = y mod 16" "(y mod 16 * 4 + z div 64) mod 4 = z div 64"
    by simp_all
qed

lemma s3: fixes x y z :: nat assumes "x < 256" "y < 256" "z < 256"
  shows "x div 4 < 64" "x mod 4 * 16 + y div 16 < 64" "y mod 16 * 4 + z div 64 < 64" "z mod 64 < 64"
    "x mod 4 * 16 < 64" "y mod 16 * 4 < 64"
proof -
  have "x mod 4 < 4" "y mod 16 < 16" "y div 16 < 16" "z div 64 < 4" using assms by simp_all
  then show "x mod 4 * 16 + y div 16 < 64" "y mod 16 * 4 + z div 64 < 64" "x mod 4 * 16 < 64" "y mod 16 * 4 < 64"
    by linarith+
  show "x div 4 < 64" using assms by simp
  show "z mod 64 < 64" by simp
qed

lemma s4: fixes x y z :: nat
  shows "x div 4 * 4 + x mod 4 = x" "y div 16 + y mod 16 * 16 = y mod 16 * 16 + y div 16"
   "y mod 16 * 16 + y div 16 * 1 = y mod 16 * 16 + y div 16" "z div 64 * 64 + z mod 64 = z"
  by simp_all

lemma b64_table:
  "\<forall>n \<in> set [0 ..< 64].
     b64_value (b64_char n) = Some n \<and> b64_char n \<noteq> CHR ''='' \<and> b64_char n \<noteq> CHR ''.''"
  by (simp add: b64_value_def b64_char_def upt_rec)

lemma b64_value_char: "n < 64 \<Longrightarrow> b64_value (b64_char n) = Some n"
  using b64_table by simp

lemma b64_char_plain: "b64_char n \<noteq> CHR ''='' \<and> b64_char n \<noteq> CHR ''.''"
proof -
  have "b64_char n = b64_char (n mod 64)"
    by (simp add: b64_char_def)
  then show ?thesis using b64_table by simp
qed

lemma b64_decode_encode: "b64_decode (b64_encode s) = Some s"
proof (induction s rule: b64_encode.induct)
  case 1
  show ?case by simp
next
  case (2 a)
  have x: "(of_char a :: nat) < 256" by simp
  have "(of_char a mod 4 * 16) div 16 = (of_char a mod 4 :: nat)" by simp
  then show ?case
    using s3(1,5) [OF x x x]
    by (simp add: Let_def b64_value_char b64_char_plain)
next
  case (3 a b)
  have x: "(of_char a :: nat) < 256" and y: "(of_char b :: nat) < 256" by simp_all
  have "(of_char b mod 16 * 4) div 4 = (of_char b mod 16 :: nat)" by simp
  then show ?case
    using s3(1,2,6) [OF x y y] s1 [OF y, of "of_char a"]
    by (simp add: Let_def b64_value_char b64_char_plain)
next
  case (4 a b c rest)
  have x: "(of_char a :: nat) < 256" and y: "(of_char b :: nat) < 256"
    and z: "(of_char c :: nat) < 256" by simp_all
  show ?case
    using s3(1,2,3,4) [OF x y z] s1 [OF y, of "of_char a"] s2 [OF z, of "of_char b"] "4.IH"
    by (simp add: Let_def b64_value_char b64_char_plain)
qed

lemma b64_encode_no_dot: "CHR ''.'' \<notin> set (b64_encode s)"
  by (induction s rule: b64_encode.induct) (simp_all add: Let_def b64_char_plain [THEN conjunct2, symmetric])


lemma ref_Utilities_contract: "base64_contract ref_Utilities"
  by (simp add: base64_contract_def ref_Utilities_def b64_decode_encode b64_encode_no_dot)

lemma ref_JSON_contract: "stringify_contract ref_JSON"
  by (simp add: stringify_contract_def ref_JSON_def)

lemmas b64_eval = ref_Utilities_def b64_char_def b64_value_def char_of_eq_iff Let_def

lemmas json_eval = ref_JSON_def QuoteJSONString_def json_escape_def number_string_def
  int_string_def nat_string.simps digit_char_def skip_ws_def is_ws_def parse_number_def
  is_digit_def index_value_def digit_value_def unescape_def Let_def



subsection \<open>decodeJwt_ and encodeJwt_\<close>


lemma split_no_sep: "c \<notin> set s \<Longrightarrow> split c s = [s]"
  by (induction s) auto

lemma split_append: "c \<notin> set a \<Longrightarrow> split c (a @ c # rest) = a # split c rest"
  by (induction a) auto


lemma split_token:
  assumes "CHR ''.'' \<notin> set h" and "CHR ''.'' \<notin> set p"
  shows "split CHR ''.'' (h @ ''.'' @ p @ ''.'' @ rest) = h # p # split CHR ''.'' rest"
  using assms by (simp add: split_append)

lemma second_segment:
  assumes "CHR ''.'' \<notin> set h" and "CHR ''.'' \<notin> set p"
  shows "at_index (split CHR ''.'' (h @ ''.'' @ p @ ''.'' @ rest)) 1 = Some p"
  unfolding split_token [OF assms] by (simp add: at_index_def)

text \<open>
  Claim C9. Two tokens with the same second dot-separated segment (or both without one)
  decode to the same result, value or exception alike. So for a header segment and a
  payload segment without dots, which is what base64 produces, neither the header, nor the
  signature, nor any segment after it has a part in the result.
\<close>

theorem decodeJwt_second_segment:
  "(at_index (split CHR ''.'' jwt1) 1 = at_index (split CHR ''.'' jwt2) 1 \<longrightarrow>
      decodeJwt Utilities JSON jwt1 = decodeJwt Utilities JSON jwt2)
   \<and> (CHR ''.'' \<notin> set h1 \<and> CHR ''.'' \<notin> set h2 \<and> CHR ''.'' \<notin> set p \<longrightarrow>
        decodeJwt Utilities JSON (h1 @ ''.'' @ p @ ''.'' @ rest1) =
        decodeJwt Utilities JSON (h2 @ ''.'' @ p @ ''.'' @ rest2))"
proof (intro conjI impI)
  assume "at_index (split CHR ''.'' jwt1) 1 = at_index (split CHR ''.'' jwt2) 1"
  then show "decodeJwt Utilities JSON jwt1 = decodeJwt Utilities JSON jwt2"
    by (simp add: decodeJwt_def)
next
  assume "CHR ''.'' \<notin> set h1 \<and> CHR ''.'' \<notin> set h2 \<and> CHR ''.'' \<notin> set p"
  then have h1: "CHR ''.'' \<notin> set h1" and h2: "CHR ''.'' \<notin> set h2" and p: "CHR ''.'' \<notin> set p"
    by simp_all
  have "at_index (split CHR ''.'' (h1 @ ''.'' @ p @ ''.'' @ rest1)) 1 =
             at_index (split CHR ''.'' (h2 @ ''.'' @ p @ ''.'' @ rest2)) 1"
    unfolding second_segment [OF h1 p] second_segment [OF h2 p] ..
  then show "decodeJwt Utilities JSON (h1 @ ''.'' @ p @ ''.'' @ rest1) =
        decodeJwt Utilities JSON (h2 @ ''.'' @ p @ ''.'' @ rest2)"
    by (simp add: decodeJwt_def)
qed


theorem decodeJwt_second_segment_witness:
  "at_index (split CHR ''.'' ''eyJhIjoxfQ==.e30=.sig'') 1 =
     at_index (split CHR ''.'' ''x.e30=.other.more'') 1
   \<and> CHR ''.'' \<notin> set ''eyJhIjoxfQ=='' \<and> CHR ''.'' \<notin> set ''x'' \<and> CHR ''.'' \<notin> set ''e30=''
   \<and> decodeJwt ref_Utilities ref_JSON ''eyJhIjoxfQ==.e30=.sig'' =
       decodeJwt ref_Utilities ref_JSON ''x.e30=.other.more''
   \<and> decodeJwt ref_Utilities ref_JSON ''x.e30=.other.more'' = Inr (JObject [])"
proof -
  have "decodeJwt ref_Utilities ref_JSON ''x.e30=.other.more'' = Inr (JObject [])"
    by (simp add: decodeJwt_def at_index_def b64_eval json_eval)
  then show ?thesis
    using decodeJwt_second_segment [where ?jwt1.0 = "''eyJhIjoxfQ==.e30=.sig''"
        and ?jwt2.0 = "''x.e30=.other.more''" and Utilities = ref_Utilities and JSON = ref_JSON
        and ?h1.0 = "''eyJhIjoxfQ==''" and ?h2.0 = "''x''" and p = "''e30=''"
        and ?rest1.0 = "''sig''" and ?rest2.0 = "''other.more''"]
    by (simp add: at_index_def)
qed


subsection \<open>Object.assign\<close>




lemma encodeJwt_custom:
  assumes hs: "stringify JSON (JObject (Object_assign
                  [(''alg'', JString ''RS256''), (''typ'', JString ''JWT'')]
                  (case H of None \<Rightarrow> [] | Some ob \<Rightarrow> ob))) = Some hs"
    and ps: "stringify JSON payload = ps"
    and h64: "base64EncodeWebSafe Utilities (Some hs) = Inr h64"
    and p64: "base64EncodeWebSafe Utilities ps = Inr p64"
  shows "encodeJwt Utilities JSON payload key (Some \<lparr>header = H, computeJWTSignature = Some f\<rparr>) =
           (case f (h64 @ ''.'' @ p64) key of
              Inl e \<Rightarrow> Inl e
            | Inr signature \<Rightarrow> Inr (h64 @ ''.'' @ p64 @ ''.'' @ signature))"
  using assms by (simp add: encodeJwt_def Let_def split: sum.splits)


lemma base64_contractD:
  "base64_contract Utilities \<Longrightarrow>
   \<exists>e. base64EncodeWebSafe Utilities (Some s) = Inr e
       \<and> CHR ''.'' \<notin> set e
       \<and> (\<exists>b. base64DecodeWebSafe Utilities (Some e) = Inr b
              \<and> getDataAsString Utilities (newBlob Utilities b) = s)"
  unfolding base64_contract_def by (rule spec)

lemma decodeJwt_token:
  assumes "CHR ''.'' \<notin> set h64" and "CHR ''.'' \<notin> set p64"
    and "base64DecodeWebSafe Utilities (Some p64) = Inr b"
    and "getDataAsString Utilities (newBlob Utilities b) = ps"
  shows "decodeJwt Utilities JSON (h64 @ ''.'' @ p64 @ ''.'' @ s) = parse JSON ps"
  using assms(3,4) second_segment [OF assms(1,2), of s]
  by (simp add: decodeJwt_def)

text \<open>
  Claim C1. On a host that keeps the base64 contract, for a JSON-serializable payload,
  any key, any header option and any signing function \<open>f\<close> given in the options, there is a
  string \<open>toSign\<close> such that \<open>encodeJwt_\<close> throws what \<open>f\<close> throws on it, or else returns
  \<open>toSign\<close>, a dot and the signature \<open>f\<close> returns; and \<open>decodeJwt_\<close> of \<open>toSign\<close>, a dot and
  any string at all is the payload. So whatever \<open>encodeJwt_\<close> returns decodes to the
  payload, and the signature is not looked at.
\<close>

theorem decodeJwt_encodeJwt:
  assumes U: "base64_contract Utilities"
    and J: "stringify_contract JSON"
    and P: "json_serializable JSON payload"
  shows "(\<exists>toSign.
            (case f toSign key of
               Inl e \<Rightarrow>
                 encodeJwt Utilities JSON payload key
                   (Some \<lparr>header = H, computeJWTSignature = Some f\<rparr>) = Inl e
             | Inr signature \<Rightarrow>
                 encodeJwt Utilities JSON payload key
                   (Some \<lparr>header = H, computeJWTSignature = Some f\<rparr>) =
                 Inr (toSign @ ''.'' @ signature))
            \<and> (\<forall>s. decodeJwt Utilities JSON (toSign @ ''.'' @ s) = Inr payload))
         \<and> (\<forall>jwt. encodeJwt Utilities JSON payload key
                     (Some \<lparr>header = H, computeJWTSignature = Some f\<rparr>) = Inr jwt
                   \<longrightarrow> decodeJwt Utilities JSON jwt = Inr payload)"
proof -
  let ?hdr = "Object_assign [(''alg'', JString ''RS256''), (''typ'', JString ''JWT'')]
                (case H of None \<Rightarrow> [] | Some ob \<Rightarrow> ob)"
  let ?enc = "encodeJwt Utilities JSON payload key (Some \<lparr>header = H, computeJWTSignature = Some f\<rparr>)"
  from J obtain hs where hs: "stringify JSON (JObject ?hdr) = Some hs"
    unfolding stringify_contract_def by blast
  from P obtain ps where ps: "stringify JSON payload = Some ps" and parsed: "parse JSON ps = Inr payload"
    unfolding json_serializable_def by blast
  from base64_contractD [OF U, of hs] obtain h64
    where h64: "base64EncodeWebSafe Utilities (Some hs) = Inr h64"
      and hdot: "CHR ''.'' \<notin> set h64"
    by (elim exE conjE)
  from base64_contractD [OF U, of ps] obtain p64 b
    where p64: "base64EncodeWebSafe Utilities (Some ps) = Inr p64"
      and pdot: "CHR ''.'' \<notin> set p64"
      and dec: "base64DecodeWebSafe Utilities (Some p64) = Inr b"
      and str: "getDataAsString Utilities (newBlob Utilities b) = ps"
    by (elim exE conjE)
  let ?toSign = "h64 @ ''.'' @ p64"
  have enc: "?enc = (case f ?toSign key of
              Inl e \<Rightarrow> Inl e
            | Inr signature \<Rightarrow> Inr (h64 @ ''.'' @ p64 @ ''.'' @ signature))"
    by (rule encodeJwt_custom [OF hs ps h64 p64])
  have decode: "decodeJwt Utilities JSON (?toSign @ ''.'' @ s) = Inr payload" for s
    using decodeJwt_token [OF hdot pdot dec str, of JSON s] parsed by simp
  have outcome: "case f ?toSign key of
               Inl e \<Rightarrow> ?enc = Inl e
             | Inr signature \<Rightarrow> ?enc = Inr (?toSign @ ''.'' @ signature)"
  proof (cases "f ?toSign key")
    case (Inl e)
    then show ?thesis unfolding enc by simp
  next
    case (Inr signature)
    then show ?thesis unfolding enc by simp
  qed
  have second: "decodeJwt Utilities JSON jwt = Inr payload" if "?enc = Inr jwt" for jwt
  proof (cases "f ?toSign key")
    case (Inl e)
    with that show ?thesis unfolding enc by simp
  next
    case (Inr signature)
    with that have "jwt = ?toSign @ ''.'' @ signature" unfolding enc by simp
    then show ?thesis using decode [of signature] by (simp only:)
  qed
  have "(case f ?toSign key of
               Inl e \<Rightarrow> ?enc = Inl e
             | Inr signature \<Rightarrow> ?enc = Inr (?toSign @ ''.'' @ signature))
            \<and> (\<forall>s. decodeJwt Utilities JSON (?toSign @ ''.'' @ s) = Inr payload)"
    using outcome decode by (intro conjI allI)
  then have "\<exists>toSign.
            (case f toSign key of
               Inl e \<Rightarrow> ?enc = Inl e
             | Inr signature \<Rightarrow> ?enc = Inr (toSign @ ''.'' @ signature))
            \<and> (\<forall>s. decodeJwt Utilities JSON (toSign @ ''.'' @ s) = Inr payload)"
    by (rule exI [where x = ?toSign])
  moreover have "\<forall>jwt. ?enc = Inr jwt \<longrightarrow> decodeJwt Utilities JSON jwt = Inr payload"
    using second by (intro allI impI)
  ultimately show ?thesis by (rule conjI)
qed

lemma payload_serializable:
  "json_serializable ref_JSON
     (JObject [(''iss'', JString ''me@x.com''), (''exp'', JNumber (Num 1700000000))])"
  unfolding json_serializable_def
  by (rule exI [where x = "stringify_value
       (JObject [(''iss'', JString ''me@x.com''), (''exp'', JNumber (Num 1700000000))])"])
     (simp add: json_eval)

theorem decodeJwt_encodeJwt_witness:
  "base64_contract ref_Utilities \<and> stringify_contract ref_JSON
   \<and> json_serializable ref_JSON
        (JObject [(''iss'', JString ''me@x.com''), (''exp'', JNumber (Num 1700000000))])
   \<and> (\<exists>jwt. encodeJwt ref_Utilities ref_JSON
                (JObject [(''iss'', JString ''me@x.com''), (''exp'', JNumber (Num 1700000000))])
                ''secret''
                (Some \<lparr>header = None,
                       computeJWTSignature = Some (\<lambda>toSign key. Inr (key @ ''.'' @ take 3 toSign))\<rparr>)
              = Inr jwt
            \<and> decodeJwt ref_Utilities ref_JSON jwt =
                Inr (JObject [(''iss'', JString ''me@x.com''), (''exp'', JNumber (Num 1700000000))]))"
proof -
  let ?P = "JObject [(''iss'', JString ''me@x.com''), (''exp'', JNumber (Num 1700000000))]"
  let ?f = "\<lambda>toSign key. Inr (key @ ''.'' @ take 3 toSign) :: error + string"
  let ?enc = "encodeJwt ref_Utilities ref_JSON ?P ''secret''
                (Some \<lparr>header = None, computeJWTSignature = Some ?f\<rparr>)"
  from decodeJwt_encodeJwt [OF ref_Utilities_contract ref_JSON_contract payload_serializable,
      where f = ?f and key = "''secret''" and H = None]
  obtain toSign where
    "case ?f toSign ''secret'' of Inl e \<Rightarrow> ?enc = Inl e
       | Inr signature \<Rightarrow> ?enc = Inr (toSign @ ''.'' @ signature)"
    and "\<forall>s. decodeJwt ref_Utilities ref_JSON (toSign @ ''.'' @ s) = Inr ?P"
    by blast
  then have "?enc = Inr (toSign @ ''.'' @ ''secret'' @ ''.'' @ take 3 toSign)
     \<and> decodeJwt ref_Utilities ref_JSON (toSign @ ''.'' @ ''secret'' @ ''.'' @ take 3 toSign) = Inr ?P"
    by simp
  then have "\<exists>jwt. ?enc = Inr jwt \<and> decodeJwt ref_Utilities ref_JSON jwt = Inr ?P"
    by (rule exI [where x = "toSign @ ''.'' @ ''secret'' @ ''.'' @ take 3 toSign"])
  then show ?thesis
    using ref_Utilities_contract ref_JSON_contract payload_serializable by (intro conjI)
qed




end
